theory Spec2Isabelle
  imports Complex_Main
begin

section \<open>JavaScript values and strings\<close>

text \<open>
  The worker of \<^verbatim>\<open>src/index.js\<close> handles JSON values, query parameters and header
  values. A JavaScript string is modelled as a \<^typ>\<open>string\<close>, one \<^typ>\<open>char\<close> per
  code unit below 256; a JavaScript number as a mathematical integer (the worker only
  reads numbers through \<^verbatim>\<open>parseInt\<close>, truthiness and one division), so the model is that
  of integer-valued numbers on which double arithmetic is exact. \<open>JObj\<close> lists the own
  properties of an object in the order \<^verbatim>\<open>Object.keys\<close> enumerates them; the keys of a
  parsed object are distinct.
\<close>

datatype jsval =
    JUndefined
  | JNull
  | JBool bool
  | JNum int
  | JStr string
  | JArr "jsval list"
  | JObj "(string \<times> jsval) list"

text \<open>ToBoolean.\<close>

fun truthy :: "jsval \<Rightarrow> bool" where
  "truthy JUndefined = False"
| "truthy JNull = False"
| "truthy (JBool b) = b"
| "truthy (JNum n) = (n \<noteq> 0)"
| "truthy (JStr s) = (s \<noteq> [])"
| "truthy (JArr xs) = True"
| "truthy (JObj kvs) = True"

text \<open>\<^verbatim>\<open>typeof v === 'string'\<close>.\<close>

fun is_string :: "jsval \<Rightarrow> bool" where
  "is_string (JStr s) = True"
| "is_string v = False"

text \<open>
  White space as \<^verbatim>\<open>String.prototype.trim\<close> and \<^verbatim>\<open>parseInt\<close> strip it: TAB, LF, VT, FF,
  CR, SPACE and NBSP are the white-space and line-terminator code units below 256.
\<close>

definition is_ws :: "char \<Rightarrow> bool" where
  "is_ws c = (of_char c \<in> {9, 10, 11, 12, 13, 32, 160 :: nat})"

definition trim :: "string \<Rightarrow> string" where
  "trim s = rev (dropWhile is_ws (rev (dropWhile is_ws s)))"

definition is_digit :: "char \<Rightarrow> bool" where
  "is_digit c = (48 \<le> (of_char c :: nat) \<and> (of_char c :: nat) \<le> 57)"

text \<open>The value of a digit in a radix up to 36, as \<^verbatim>\<open>parseInt\<close> reads it.\<close>

definition digit_val :: "char \<Rightarrow> nat option" where
  "digit_val c =
     (let n = (of_char c :: nat) in
      if 48 \<le> n \<and> n \<le> 57 then Some (n - 48)
      else if 97 \<le> n \<and> n \<le> 122 then Some (n - 87)
      else if 65 \<le> n \<and> n \<le> 90 then Some (n - 55)
      else None)"

definition radix_digit :: "nat \<Rightarrow> char \<Rightarrow> bool" where
  "radix_digit r c = (case digit_val c of None \<Rightarrow> False | Some d \<Rightarrow> d < r)"

definition digits_value :: "nat \<Rightarrow> string \<Rightarrow> nat" where
  "digits_value r ds = fold (\<lambda>c acc. acc * r + (case digit_val c of None \<Rightarrow> 0 | Some d \<Rightarrow> d)) ds 0"

text \<open>
  \<^verbatim>\<open>parseInt(string)\<close> with no radix: leading white space is skipped, one sign is
  read, a \<^verbatim>\<open>0x\<close> or \<^verbatim>\<open>0X\<close> prefix selects radix 16, and the longest run of digits
  of the radix is the value; the rest of the string is ignored. \<open>None\<close> is NaN.
\<close>

definition parse_int_string :: "string \<Rightarrow> int option" where
  "parse_int_string s =
     (let s1 = dropWhile is_ws s;
          sgn = (case s1 of c # r \<Rightarrow> if c = CHR ''-'' then (- 1 :: int) else 1 | [] \<Rightarrow> 1);
          s2 = (case s1 of c # r \<Rightarrow> if c = CHR ''-'' \<or> c = CHR ''+'' then r else s1 | [] \<Rightarrow> s1);
          hex = (case s2 of c # x # r \<Rightarrow> c = CHR ''0'' \<and> (x = CHR ''x'' \<or> x = CHR ''X'') | _ \<Rightarrow> False);
          radix = (if hex then 16 else 10);
          s3 = (if hex then drop 2 s2 else s2);
          ds = takeWhile (radix_digit radix) s3
      in if ds = [] then None else Some (sgn * int (digits_value radix ds)))"

text \<open>Decimal notation of a number, as \<^verbatim>\<open>String(n)\<close> and template literals print it.\<close>

definition digit_char :: "nat \<Rightarrow> char" where
  "digit_char d = ''0123456789'' ! d"

fun show_nat :: "nat \<Rightarrow> string" where
  "show_nat n = (if n < 10 then [digit_char n] else show_nat (n div 10) @ [digit_char (n mod 10)])"

declare show_nat.simps [simp del]

definition show_int :: "int \<Rightarrow> string" where
  "show_int i = (if i < 0 then CHR ''-'' # show_nat (nat (- i)) else show_nat (nat i))"

text \<open>\<^verbatim>\<open>Array.prototype.join\<close> on strings.\<close>

fun join :: "string \<Rightarrow> string list \<Rightarrow> string" where
  "join sep [] = []"
| "join sep [x] = x"
| "join sep (x # y # ys) = x @ sep @ join sep (y # ys)"

text \<open>
  ToString. An array prints its elements joined by commas, \<^verbatim>\<open>null\<close> and
  \<^verbatim>\<open>undefined\<close> elements as the empty string; a plain object prints as
  \<^verbatim>\<open>[object Object]\<close>.
\<close>

fun to_string :: "jsval \<Rightarrow> string" where
  "to_string JUndefined = ''undefined''"
| "to_string JNull = ''null''"
| "to_string (JBool b) = (if b then ''true'' else ''false'')"
| "to_string (JNum n) = show_int n"
| "to_string (JStr s) = s"
| "to_string (JArr xs) =
     join '','' (map (\<lambda>x. if x = JUndefined \<or> x = JNull then [] else to_string x) xs)"
| "to_string (JObj kvs) = ''[object Object]''"

definition parseInt :: "jsval \<Rightarrow> int option" where
  "parseInt v = parse_int_string (to_string v)"

text \<open>
  Lines 109 to 112. \<^verbatim>\<open>safeParseInt(value, defaultValue)\<close> with a numeric default, and
  with the default \<^verbatim>\<open>null\<close> (the result \<open>None\<close> is \<^verbatim>\<open>null\<close>).
\<close>

definition safeParseInt :: "jsval \<Rightarrow> int \<Rightarrow> int" where
  "safeParseInt v defaultValue =
     (case parseInt v of
        None \<Rightarrow> defaultValue
      | Some parsed \<Rightarrow> if parsed > 0 then parsed else defaultValue)"

definition safeParseInt_null :: "jsval \<Rightarrow> int option" where
  "safeParseInt_null v =
     (case parseInt v of
        None \<Rightarrow> None
      | Some parsed \<Rightarrow> if parsed > 0 then Some parsed else None)"

text \<open>\<^verbatim>\<open>String.prototype.includes\<close>.\<close>

fun str_includes :: "string \<Rightarrow> string \<Rightarrow> bool" where
  "str_includes [] sub = (sub = [])"
| "str_includes (c # cs) sub = (take (length sub) (c # cs) = sub \<or> str_includes cs sub)"

text \<open>
  \<^verbatim>\<open>String.prototype.replace\<close> with a string pattern and a replacement without \<^verbatim>\<open>$\<close>: the
  first occurrence is replaced.
\<close>

fun replace_first :: "string \<Rightarrow> string \<Rightarrow> string \<Rightarrow> string" where
  "replace_first pat rep [] = (if pat = [] then rep else [])"
| "replace_first pat rep (c # cs) =
     (if take (length pat) (c # cs) = pat then rep @ drop (length pat) (c # cs)
      else c # replace_first pat rep cs)"

text \<open>
  Reading a property. The worker reads \<^verbatim>\<open>title\<close>, \<^verbatim>\<open>author\<close>, \<^verbatim>\<open>year\<close>, \<^verbatim>\<open>isbn\<close>,
  \<^verbatim>\<open>genre\<close>, \<^verbatim>\<open>description\<close>, \<^verbatim>\<open>total\<close>, \<^verbatim>\<open>earliest\<close> and \<^verbatim>\<open>latest\<close>; a string, a
  number, a boolean or an array has none of them, so the read gives \<^verbatim>\<open>undefined\<close>.
  Reading a property of \<^verbatim>\<open>null\<close> throws; the functions below test for \<^verbatim>\<open>null\<close>
  before they read.
\<close>

fun get_prop :: "jsval \<Rightarrow> string \<Rightarrow> jsval" where
  "get_prop (JObj kvs) k = (case map_of kvs k of Some v \<Rightarrow> v | None \<Rightarrow> JUndefined)"
| "get_prop v k = JUndefined"

text \<open>Own enumerable properties, in the order of \<^verbatim>\<open>Object.keys\<close> and of object spread.\<close>

fun own_props :: "jsval \<Rightarrow> (string \<times> jsval) list" where
  "own_props (JObj kvs) = kvs"
| "own_props (JArr xs) = zip (map show_nat [0..<length xs]) xs"
| "own_props (JStr s) = zip (map show_nat [0..<length s]) (map (\<lambda>c. JStr [c]) s)"
| "own_props v = []"

fun set_prop :: "string \<Rightarrow> 'a \<Rightarrow> (string \<times> 'a) list \<Rightarrow> (string \<times> 'a) list" where
  "set_prop k v [] = [(k, v)]"
| "set_prop k v (p # ps) = (if fst p = k then (k, v) # ps else p # set_prop k v ps)"

text \<open>Object spread \<^verbatim>\<open>{ ...base, ...over }\<close> on property lists.\<close>

definition spread :: "(string \<times> 'a) list \<Rightarrow> (string \<times> 'a) list \<Rightarrow> (string \<times> 'a) list" where
  "spread base over = fold (\<lambda>p acc. set_prop (fst p) (snd p) acc) over base"

section \<open>Error taxonomy (lines 1 to 24)\<close>

text \<open>
  The three classes of the worker, each with its message, and \<open>Error\<close> for every other
  exception (a plain \<^verbatim>\<open>Error\<close>, a \<^verbatim>\<open>TypeError\<close>, the \<^verbatim>\<open>SyntaxError\<close> of a body that is
  not JSON, a failure of the store), with its message.
\<close>

datatype error =
    ValidationError string
  | NotFoundError string
  | RateLimitError string
  | Error string

text \<open>The \<^verbatim>\<open>status\<close> field the three constructors set.\<close>

fun error_status :: "error \<Rightarrow> nat option" where
  "error_status (ValidationError m) = Some 400"
| "error_status (NotFoundError m) = Some 404"
| "error_status (RateLimitError m) = Some 429"
| "error_status (Error m) = None"

section \<open>Validation (lines 34 to 106)\<close>

definition ALLOWED_UPDATE_FIELDS :: "string list" where
  "ALLOWED_UPDATE_FIELDS = [''title'', ''author'', ''year'', ''isbn'', ''genre'', ''description'']"

text \<open>Membership in the allow-list, \<^verbatim>\<open>ALLOWED_UPDATE_FIELDS.includes(key)\<close>.\<close>

definition allowed :: "string \<Rightarrow> bool" where
  "allowed key = (key \<in> set ALLOWED_UPDATE_FIELDS)"

text \<open>
  The pattern of line 82, \<^verbatim>\<open>/^(?:\d{10}|\d{13}|[\d-]{13,17})$/\<close>: the whole string is ten
  digits, or thirteen digits, or thirteen to seventeen digits and hyphens.
\<close>

definition isbn_format :: "string \<Rightarrow> bool" where
  "isbn_format s =
     ((length s = 10 \<and> list_all is_digit s)
      \<or> (length s = 13 \<and> list_all is_digit s)
      \<or> (13 \<le> length s \<and> length s \<le> 17 \<and> list_all (\<lambda>c. is_digit c \<or> c = CHR ''-'') s))"

text \<open>Lines 40 to 46; the read of \<^verbatim>\<open>book[field]\<close> throws a TypeError on \<^verbatim>\<open>null\<close>.\<close>

definition check_required :: "jsval \<Rightarrow> bool \<Rightarrow> error + unit" where
  "check_required book isUpdate =
     (if isUpdate then Inr ()
      else if book = JNull \<or> book = JUndefined
        then Inl (Error ''Cannot read properties of null (reading 'title')'')
      else let missing = filter (\<lambda>field. \<not> truthy (get_prop book field)) [''title'', ''author'']
           in if missing \<noteq> []
              then Inl (ValidationError (''Missing required fields: '' @ join '', '' missing))
              else Inr ())"

text \<open>Lines 49 to 56 and 59 to 66: a required text field with a maximal length.\<close>

definition check_name :: "jsval \<Rightarrow> nat \<Rightarrow> string \<Rightarrow> string \<Rightarrow> error + unit" where
  "check_name v maxlen empty_msg long_msg =
     (case v of
        JUndefined \<Rightarrow> Inr ()
      | JStr s \<Rightarrow>
          if length (trim s) = 0 then Inl (ValidationError empty_msg)
          else if length s > maxlen then Inl (ValidationError long_msg)
          else Inr ()
      | _ \<Rightarrow> Inl (ValidationError empty_msg))"

definition check_title :: "jsval \<Rightarrow> error + unit" where
  "check_title book =
     check_name (get_prop book ''title'') 500
       ''Title must be a non-empty string'' ''Title must be 500 characters or less''"

definition check_author :: "jsval \<Rightarrow> error + unit" where
  "check_author book =
     check_name (get_prop book ''author'') 200
       ''Author must be a non-empty string'' ''Author must be 200 characters or less''"

text \<open>Lines 69 to 75; \<open>currentYear\<close> is \<^verbatim>\<open>new Date().getFullYear()\<close>.\<close>

definition check_year :: "int \<Rightarrow> jsval \<Rightarrow> error + unit" where
  "check_year currentYear book =
     (let year = get_prop book ''year'' in
      if year \<noteq> JNull \<and> year \<noteq> JUndefined \<and> year \<noteq> JStr [] then
        (case parseInt year of
           None \<Rightarrow> Inl (ValidationError
             (''Year must be a valid number between 0 and '' @ show_int (currentYear + 10)))
         | Some yearNum \<Rightarrow>
             if yearNum < 0 \<or> yearNum > currentYear + 10
             then Inl (ValidationError
               (''Year must be a valid number between 0 and '' @ show_int (currentYear + 10)))
             else Inr ())
      else Inr ())"

text \<open>Lines 78 to 85.\<close>

definition check_isbn :: "jsval \<Rightarrow> error + unit" where
  "check_isbn book =
     (let isbn = get_prop book ''isbn'' in
      if truthy isbn \<and> isbn \<noteq> JStr [] then
        (case isbn of
           JStr s \<Rightarrow> if \<not> isbn_format s then Inl (ValidationError ''Invalid ISBN format'') else Inr ()
         | _ \<Rightarrow> Inl (ValidationError ''ISBN must be a string''))
      else Inr ())"

text \<open>Lines 88 to 95 and 98 to 105: an optional text field with a maximal length.\<close>

definition check_text :: "jsval \<Rightarrow> nat \<Rightarrow> string \<Rightarrow> string \<Rightarrow> error + unit" where
  "check_text v maxlen type_msg long_msg =
     (if v \<noteq> JNull \<and> v \<noteq> JUndefined \<and> v \<noteq> JStr [] then
        (case v of
           JStr s \<Rightarrow> if length s > maxlen then Inl (ValidationError long_msg) else Inr ()
         | _ \<Rightarrow> Inl (ValidationError type_msg))
      else Inr ())"

definition check_description :: "jsval \<Rightarrow> error + unit" where
  "check_description book =
     check_text (get_prop book ''description'') 5000
       ''Description must be a string'' ''Description must be 5000 characters or less''"

definition check_genre :: "jsval \<Rightarrow> error + unit" where
  "check_genre book =
     check_text (get_prop book ''genre'') 100
       ''Genre must be a string'' ''Genre must be 100 characters or less''"

text \<open>The first exception thrown by a sequence of checks.\<close>

fun first_error :: "(error + unit) list \<Rightarrow> error + unit" where
  "first_error [] = Inr ()"
| "first_error (Inl e # cs) = Inl e"
| "first_error (Inr u # cs) = first_error cs"

definition validateBook :: "int \<Rightarrow> jsval \<Rightarrow> bool \<Rightarrow> error + unit" where
  "validateBook currentYear book isUpdate =
     first_error
       [check_required book isUpdate,
        check_title book,
        check_author book,
        check_year currentYear book,
        check_isbn book,
        check_description book,
        check_genre book]"

section \<open>Requests, responses and collaborators\<close>

text \<open>
  A request as the worker reads it: the method, the path and the query parameters of the
  parsed URL, the headers under their lower-case names, and what \<^verbatim>\<open>request.json()\<close>
  gives when it is awaited: the parsed body, or the message of the exception it throws.
\<close>

record request =
  req_method :: string
  pathname :: string
  searchParams :: "(string \<times> string) list"
  req_headers :: "(string \<times> string) list"
  json :: "string + jsval"

text \<open>\<^verbatim>\<open>params.get(name)\<close> and \<^verbatim>\<open>request.headers.get(name)\<close>: the value or \<^verbatim>\<open>null\<close>.\<close>

definition lookup :: "(string \<times> string) list \<Rightarrow> string \<Rightarrow> jsval" where
  "lookup kvs name = (case map_of kvs name of None \<Rightarrow> JNull | Some v \<Rightarrow> JStr v)"

record response =
  status :: nat
  body :: "jsval option"
  headers :: "(string \<times> string) list"

text \<open>
  Lines 115 to 126. The body is the value handed to \<^verbatim>\<open>JSON.stringify\<close>, \<open>None\<close> for the
  \<^verbatim>\<open>null\<close> body.
\<close>

definition createResponse :: "jsval \<Rightarrow> nat \<Rightarrow> (string \<times> string) list \<Rightarrow> response" where
  "createResponse b st hs =
     \<lparr> status = st,
       body = (if b \<noteq> JNull then Some b else None),
       headers = spread
         [(''Content-Type'', ''application/json''),
          (''Access-Control-Allow-Origin'', ''*''),
          (''Access-Control-Allow-Methods'', ''GET, POST, PUT, DELETE, OPTIONS''),
          (''Access-Control-Allow-Headers'', ''Content-Type'')] hs \<rparr>"

definition error_body :: "string \<Rightarrow> jsval" where
  "error_body m = JObj [(''error'', JStr m)]"

text \<open>
  The store. A statement is its text with its bound values. The store is any state
  machine: \<open>d1_all\<close>, \<open>d1_run\<close> and \<open>d1_first\<close> answer \<^verbatim>\<open>all()\<close>, \<^verbatim>\<open>run()\<close> and
  \<^verbatim>\<open>first()\<close> on a statement in a state of the store and give the next state. An answer
  is \<open>Inl\<close> the message of a rejection or \<open>Inr\<close> the result; \<^verbatim>\<open>all()\<close> also tells
  whether it settles within the five seconds of \<^verbatim>\<open>executeQuery\<close>. \<open>d1_all_count\<close> is
  \<^verbatim>\<open>all()\<close> on the \<^verbatim>\<open>COUNT(*) as count\<close> statement, which the store answers with one row
  holding an integer: its result is that integer.
\<close>

type_synonym stmt = "string \<times> jsval list"

datatype timing = InTime | Late

record 's d1 =
  d1_all :: "stmt \<Rightarrow> 's \<Rightarrow> (timing \<times> (string + jsval list)) \<times> 's"
  d1_all_count :: "stmt \<Rightarrow> 's \<Rightarrow> (timing \<times> (string + int)) \<times> 's"
  d1_run :: "stmt \<Rightarrow> 's \<Rightarrow> (string + bool \<times> jsval) \<times> 's"
  d1_first :: "stmt \<Rightarrow> 's \<Rightarrow> (string + jsval) \<times> 's"

text \<open>
  The limiter answers \<^verbatim>\<open>limit({ key })\<close> with its \<^verbatim>\<open>success\<close> flag or throws.
\<close>

datatype limiter_outcome = Limited bool | LimiterThrows string

record 's env =
  MY_RATE_LIMITER :: "(string \<Rightarrow> limiter_outcome) option"
  DB :: "'s d1"
  currentYear :: int
  now :: string

text \<open>What a request does besides answering, in the order it does it.\<close>

datatype event =
    ConsoleLog string
  | ConsoleError string error
  | LimiterCall string
  | DbAll stmt
  | DbRun stmt
  | DbFirst stmt
  | BodyRead

record 's world =
  db :: 's
  trace :: "event list"

definition emit :: "event \<Rightarrow> 's world \<Rightarrow> 's world" where
  "emit e w = w\<lparr>trace := trace w @ [e]\<rparr>"

text \<open>
  A step of the handler runs in a world and ends with an exception or a value. \<open>bnd\<close> is
  sequencing: an exception skips what follows.
\<close>

type_synonym ('a, 's) step = "'s world \<Rightarrow> (error + 'a) \<times> 's world"

definition ret :: "'a \<Rightarrow> ('a, 's) step" where
  "ret x w = (Inr x, w)"

definition throw :: "error \<Rightarrow> ('a, 's) step" where
  "throw e w = (Inl e, w)"

definition lift :: "error + 'a \<Rightarrow> ('a, 's) step" where
  "lift r w = (r, w)"

definition bnd :: "('a, 's) step \<Rightarrow> ('a \<Rightarrow> ('b, 's) step) \<Rightarrow> ('b, 's) step" where
  "bnd m f w = (case m w of (Inl e, w') \<Rightarrow> (Inl e, w') | (Inr x, w') \<Rightarrow> f x w')"

definition console_log :: "string \<Rightarrow> (unit, 's) step" where
  "console_log label w = (Inr (), emit (ConsoleLog label) w)"

text \<open>Lines 139 to 143: the statement races a timer of five seconds.\<close>

definition executeQuery :: "'s env \<Rightarrow> stmt \<Rightarrow> (jsval list, 's) step" where
  "executeQuery e st w =
     (case d1_all (DB e) st (db w) of
        ((t, r), s') \<Rightarrow>
          (let w' = emit (DbAll st) (w\<lparr>db := s'\<rparr>) in
           case t of
             Late \<Rightarrow> (Inl (Error ''Database query timeout''), w')
           | InTime \<Rightarrow> (case r of Inl m \<Rightarrow> (Inl (Error m), w') | Inr rows \<Rightarrow> (Inr rows, w'))))"

definition executeQuery_count :: "'s env \<Rightarrow> stmt \<Rightarrow> (int, 's) step" where
  "executeQuery_count e st w =
     (case d1_all_count (DB e) st (db w) of
        ((t, r), s') \<Rightarrow>
          (let w' = emit (DbAll st) (w\<lparr>db := s'\<rparr>) in
           case t of
             Late \<Rightarrow> (Inl (Error ''Database query timeout''), w')
           | InTime \<Rightarrow> (case r of Inl m \<Rightarrow> (Inl (Error m), w') | Inr c \<Rightarrow> (Inr c, w'))))"

definition run :: "'s env \<Rightarrow> stmt \<Rightarrow> (bool \<times> jsval, 's) step" where
  "run e st w =
     (case d1_run (DB e) st (db w) of
        (r, s') \<Rightarrow>
          (let w' = emit (DbRun st) (w\<lparr>db := s'\<rparr>) in
           case r of Inl m \<Rightarrow> (Inl (Error m), w') | Inr x \<Rightarrow> (Inr x, w')))"

definition first :: "'s env \<Rightarrow> stmt \<Rightarrow> (jsval, 's) step" where
  "first e st w =
     (case d1_first (DB e) st (db w) of
        (r, s') \<Rightarrow>
          (let w' = emit (DbFirst st) (w\<lparr>db := s'\<rparr>) in
           case r of Inl m \<Rightarrow> (Inl (Error m), w') | Inr x \<Rightarrow> (Inr x, w')))"

text \<open>\<^verbatim>\<open>await request.json()\<close>.\<close>

definition read_json :: "request \<Rightarrow> (jsval, 's) step" where
  "read_json req w =
     (case json req of
        Inl m \<Rightarrow> (Inl (Error m), emit BodyRead w)
      | Inr v \<Rightarrow> (Inr v, emit BodyRead w))"

text \<open>The first element of a destructured result list, \<^verbatim>\<open>undefined\<close> when there is none.\<close>

definition first_row :: "jsval list \<Rightarrow> jsval" where
  "first_row rows = (case rows of [] \<Rightarrow> JUndefined | r # rs \<Rightarrow> r)"

section \<open>Gates (lines 128 to 169)\<close>

definition validateContentType :: "request \<Rightarrow> error + unit" where
  "validateContentType req =
     (if req_method req \<in> set [''POST'', ''PUT''] then
        (let contentType = lookup (req_headers req) ''content-type'' in
         if \<not> truthy contentType \<or> \<not> str_includes (to_string contentType) ''application/json''
         then Inl (ValidationError ''Content-Type must be application/json'')
         else Inr ())
      else Inr ())"

text \<open>
  Lines 146 to 169. The \<^verbatim>\<open>try\<close> block ends with the \<^verbatim>\<open>RateLimitError\<close> of a denial,
  with the exception of the limiter, or normally; the \<^verbatim>\<open>catch\<close> block throws the first
  again and logs the second.
\<close>

definition client_ip :: "request \<Rightarrow> string" where
  "client_ip req =
     (let h = lookup (req_headers req) ''cf-connecting-ip'' in if truthy h then to_string h else [])"

definition checkRateLimit :: "'s env \<Rightarrow> request \<Rightarrow> (unit, 's) step" where
  "checkRateLimit e req w =
     (case MY_RATE_LIMITER e of
        None \<Rightarrow> (Inr (), w)
      | Some limiter \<Rightarrow>
          (let ip = client_ip req;
               w1 = emit (LimiterCall ip) w;
               attempt = (case limiter ip of
                   Limited success \<Rightarrow>
                     if \<not> success
                     then Inl (RateLimitError ''Rate limit exceeded. Please try again later.'')
                     else Inr ()
                 | LimiterThrows m \<Rightarrow> Inl (Error m))
           in case attempt of
                Inr u \<Rightarrow> (Inr (), w1)
              | Inl err \<Rightarrow>
                  (case err of
                     RateLimitError m \<Rightarrow> (Inl err, w1)
                   | _ \<Rightarrow> (Inr (), emit (ConsoleError ''Rate limiter error:'' err) w1))))"

section \<open>Query construction and the operations (lines 206 to 472)\<close>

text \<open>
  Statement texts that the source writes over several lines are given with each run of
  white space as one space and without the white space around them.
\<close>

definition select_by_id :: string where
  "select_by_id = ''SELECT * FROM books WHERE id = ?''"

definition cache_short :: "(string \<times> string) list" where
  "cache_short = [(''Cache-Control'', ''public, max-age=60, stale-while-revalidate=120'')]"

definition cache_long :: "(string \<times> string) list" where
  "cache_long = [(''Cache-Control'', ''public, max-age=300, stale-while-revalidate=600'')]"

text \<open>Lines 207 to 244.\<close>

definition search_text :: string where
  "search_text = ''SELECT * FROM books WHERE title LIKE ? OR author LIKE ? OR genre LIKE ? OR isbn LIKE ? OR year LIKE ? OR description LIKE ? ORDER BY id ASC''"

definition search_books :: "'s env \<Rightarrow> request \<Rightarrow> (response, 's) step" where
  "search_books e req =
     (let query = lookup (searchParams req) ''q'' in
      if \<not> truthy query then throw (ValidationError ''Search query `?q=` is required'')
      else if length (to_string query) > 200
        then throw (ValidationError ''Search query too long (max 200 characters)'')
      else
        (let searchTerm = JStr (''%'' @ to_string query @ ''%'') in
         bnd (executeQuery e (search_text, replicate 6 searchTerm)) (\<lambda>results.
           ret (createResponse
             (JObj [(''query'', query), (''results'', JArr results),
                    (''count'', JNum (int (length results)))])
             200 cache_short))))"

text \<open>
  Lines 261 to 272: the query of the list operation and its bound values, before the
  count statement is derived from it.
\<close>

definition list_where :: "jsval \<Rightarrow> int option \<Rightarrow> stmt" where
  "list_where genre year =
     (let query = ''SELECT * FROM books WHERE 1=1'';
          bindings = [];
          query1 = (if truthy genre then query @ '' AND genre = ?'' else query);
          bindings1 = (if truthy genre then bindings @ [genre] else bindings);
          query2 = (if year \<noteq> None then query1 @ '' AND year = ?'' else query1);
          bindings2 = (case year of Some y \<Rightarrow> bindings1 @ [JNum y] | None \<Rightarrow> bindings1)
      in (query2, bindings2))"

text \<open>Line 291: \<^verbatim>\<open>Math.ceil(count / limit)\<close>.\<close>

definition math_ceil_div :: "int \<Rightarrow> int \<Rightarrow> int" where
  "math_ceil_div count limit = \<lceil>real_of_int count / real_of_int limit\<rceil>"

text \<open>Lines 249 to 299.\<close>

definition list_books :: "'s env \<Rightarrow> request \<Rightarrow> (response, 's) step" where
  "list_books e req =
     (let params = searchParams req;
          page = safeParseInt (lookup params ''page'') 1;
          limit = min (safeParseInt (lookup params ''limit'') 10) 100;
          offset = (page - 1) * limit;
          genre = lookup params ''genre'';
          year = safeParseInt_null (lookup params ''year'')
      in if truthy genre \<and> length (to_string genre) > 100
         then throw (ValidationError ''Genre parameter too long'')
         else
           (let q = list_where genre year;
                countQuery = replace_first ''*'' ''COUNT(*) as count'' (fst q)
            in bnd (executeQuery_count e (countQuery, snd q)) (\<lambda>count.
                 bnd (executeQuery e
                        (fst q @ '' ORDER BY id ASC LIMIT ? OFFSET ?'',
                         snd q @ [JNum limit, JNum offset])) (\<lambda>results.
                   ret (createResponse
                     (JObj [(''data'', JArr results),
                            (''pagination'', JObj
                               [(''total'', JNum count),
                                (''page'', JNum page),
                                (''limit'', JNum limit),
                                (''pages'', JNum (math_ceil_div count limit))])])
                     200 cache_short)))))"

text \<open>Sequencing of computations that may throw, outside a world.\<close>

definition and_then :: "error + 'a \<Rightarrow> ('a \<Rightarrow> error + 'b) \<Rightarrow> error + 'b" where
  "and_then r f = (case r of Inl x \<Rightarrow> Inl x | Inr v \<Rightarrow> f v)"

text \<open>
  Calling \<^verbatim>\<open>.trim()\<close> on a value: a TypeError on anything but a string.
\<close>

definition call_trim :: "jsval \<Rightarrow> error + jsval" where
  "call_trim v =
     (case v of
        JStr s \<Rightarrow> Inr (JStr (trim s))
      | JUndefined \<Rightarrow> Inl (Error ''Cannot read properties of undefined (reading 'trim')'')
      | JNull \<Rightarrow> Inl (Error ''Cannot read properties of null (reading 'trim')'')
      | _ \<Rightarrow> Inl (Error ''trim is not a function''))"

text \<open>\<^verbatim>\<open>v || null\<close> and \<^verbatim>\<open>v ? v.trim() : null\<close>.\<close>

definition or_null :: "jsval \<Rightarrow> jsval" where
  "or_null v = (if truthy v then v else JNull)"

definition trim_or_null :: "jsval \<Rightarrow> error + jsval" where
  "trim_or_null v = (if truthy v then call_trim v else Inr JNull)"

definition insert_text :: string where
  "insert_text = ''INSERT INTO books (title, author, year, isbn, genre, description) VALUES (?, ?, ?, ?, ?, ?)''"

text \<open>Lines 305 to 317: the values bound to the insert statement, in their order.\<close>

definition insert_values :: "jsval \<Rightarrow> error + jsval list" where
  "insert_values book =
     and_then (call_trim (get_prop book ''title'')) (\<lambda>title.
     and_then (call_trim (get_prop book ''author'')) (\<lambda>author.
       let year = or_null (get_prop book ''year'');
           isbn = or_null (get_prop book ''isbn'')
       in and_then (trim_or_null (get_prop book ''genre'')) (\<lambda>genre.
          and_then (trim_or_null (get_prop book ''description'')) (\<lambda>description.
            Inr [title, author, year, isbn, genre, description]))))"

text \<open>Lines 302 to 317: the body is validated, then the statement is built.\<close>

definition insert_statement :: "int \<Rightarrow> jsval \<Rightarrow> error + stmt" where
  "insert_statement cy book =
     and_then (validateBook cy book False) (\<lambda>u.
     and_then (insert_values book) (\<lambda>vs. Inr (insert_text, vs)))"

text \<open>Lines 301 to 336.\<close>

definition create_book :: "'s env \<Rightarrow> request \<Rightarrow> (response, 's) step" where
  "create_book e req =
     bnd (read_json req) (\<lambda>book.
     bnd (lift (insert_statement (currentYear e) book)) (\<lambda>st.
     bnd (run e st) (\<lambda>result.
       if \<not> fst result then throw (Error ''Failed to insert book'')
       else
         bnd (executeQuery e (select_by_id, [snd result])) (\<lambda>results.
         bnd (console_log ''Book created:'') (\<lambda>u.
           ret (createResponse (first_row results) 201 []))))))"

text \<open>Lines 380 to 392: the value bound for one field of the update.\<close>

definition bind_value :: "jsval \<Rightarrow> jsval" where
  "bind_value v =
     (case v of
        JStr s \<Rightarrow> if length (trim s) > 0 then JStr (trim s) else if s = [] then JNull else v
      | _ \<Rightarrow> v)"

text \<open>\<^verbatim>\<open>Object.keys\<close>: a TypeError on \<^verbatim>\<open>null\<close> and \<^verbatim>\<open>undefined\<close>.\<close>

definition object_keys :: "jsval \<Rightarrow> error + string list" where
  "object_keys v =
     (if v = JNull \<or> v = JUndefined
      then Inl (Error ''Cannot convert undefined or null to object'')
      else Inr (map fst (own_props v)))"

text \<open>
  Lines 370 to 396: the update statement for the stored row \<open>book\<close> with identifier
  \<open>bookId\<close> and the parsed body \<open>updates\<close>.
\<close>

definition update_statement :: "int \<Rightarrow> int \<Rightarrow> jsval \<Rightarrow> jsval \<Rightarrow> error + stmt" where
  "update_statement cy bookId book updates =
     and_then (object_keys updates) (\<lambda>keys.
       let updateFields = filter allowed keys in
       if length updateFields = 0 then Inl (ValidationError ''No valid fields to update'')
       else
         and_then (validateBook cy (JObj (spread (own_props book) (own_props updates))) True) (\<lambda>u.
           let setClause = join '', '' (map (\<lambda>key. key @ '' = ?'') updateFields);
               values = map (\<lambda>key. bind_value (get_prop updates key)) updateFields @ [JNum bookId]
           in Inr (''UPDATE books SET '' @ setClause @ '' WHERE id = ?'', values)))"

text \<open>Lines 366 to 416.\<close>

definition update_book :: "'s env \<Rightarrow> request \<Rightarrow> int \<Rightarrow> jsval \<Rightarrow> (response, 's) step" where
  "update_book e req bookId book =
     bnd (read_json req) (\<lambda>updates.
     bnd (lift (update_statement (currentYear e) bookId book updates)) (\<lambda>st.
     bnd (run e st) (\<lambda>result.
       if \<not> fst result then throw (Error ''Failed to update book'')
       else
         bnd (executeQuery e (select_by_id, [JNum bookId])) (\<lambda>results.
         bnd (console_log ''Book updated:'') (\<lambda>u.
           ret (createResponse (first_row results) 200 []))))))"

text \<open>Lines 418 to 432.\<close>

definition delete_book :: "'s env \<Rightarrow> int \<Rightarrow> (response, 's) step" where
  "delete_book e bookId =
     bnd (run e (''DELETE FROM books WHERE id = ?'', [JNum bookId])) (\<lambda>result.
       if \<not> fst result then throw (Error ''Failed to delete book'')
       else bnd (console_log ''Book deleted:'') (\<lambda>u. ret (createResponse JNull 204 [])))"

text \<open>
  Lines 344 to 437: the single-record route, \<open>seg\<close> being the group \<^verbatim>\<open>id\<close> of the
  pattern.
\<close>

definition single_book :: "'s env \<Rightarrow> request \<Rightarrow> string \<Rightarrow> (response, 's) step" where
  "single_book e req seg =
     (let bookId = safeParseInt (JStr seg) 0 in
      if bookId = 0 then throw (ValidationError ''Invalid book ID'')
      else
        bnd (executeQuery e (select_by_id, [JNum bookId])) (\<lambda>results.
          let book = first_row results in
          if \<not> truthy book then throw (NotFoundError ''Book not found'')
          else if req_method req = ''GET'' then ret (createResponse book 200 cache_long)
          else if req_method req = ''PUT'' then update_book e req bookId book
          else if req_method req = ''DELETE'' then delete_book e bookId
          else ret (createResponse (error_body ''Method not allowed'') 405 [])))"

text \<open>
  Lines 440 to 463. The three statements are started together; the model starts them in
  the order of the source and reports the first of them, in that order, that fails.
\<close>

definition all_rows :: "'s env \<Rightarrow> stmt \<Rightarrow> (jsval list, 's) step" where
  "all_rows e st w =
     (case d1_all (DB e) st (db w) of
        ((t, r), s') \<Rightarrow>
          (let w' = emit (DbAll st) (w\<lparr>db := s'\<rparr>) in
           case r of Inl m \<Rightarrow> (Inl (Error m), w') | Inr rows \<Rightarrow> (Inr rows, w')))"

definition read_of :: "jsval \<Rightarrow> string \<Rightarrow> error + jsval" where
  "read_of v k =
     (if v = JNull \<or> v = JUndefined
      then Inl (Error (''Cannot read properties of null (reading '' @ [CHR 0x27] @ k @ [CHR 0x27] @ '')''))
      else Inr (get_prop v k))"

definition stats_text_total :: string where
  "stats_text_total = ''SELECT COUNT(*) as total FROM books''"

definition stats_text_genres :: string where
  "stats_text_genres = ''SELECT genre, COUNT(*) as count FROM books WHERE genre IS NOT NULL GROUP BY genre ORDER BY count DESC''"

definition stats_text_years :: string where
  "stats_text_years = ''SELECT MIN(year) as earliest, MAX(year) as latest FROM books WHERE year IS NOT NULL''"

definition stats :: "'s env \<Rightarrow> (response, 's) step" where
  "stats e w =
     (let a0 = first e (stats_text_total, []) w;
          a1 = all_rows e (stats_text_genres, []) (snd a0);
          a2 = first e (stats_text_years, []) (snd a1)
      in (and_then (fst a0) (\<lambda>s0.
          and_then (fst a1) (\<lambda>s1.
          and_then (fst a2) (\<lambda>s2.
          and_then (read_of s0 ''total'') (\<lambda>total.
          and_then (read_of s2 ''earliest'') (\<lambda>earliest.
          and_then (read_of s2 ''latest'') (\<lambda>latest.
            Inr (createResponse
              (JObj [(''totalBooks'', total),
                     (''genreBreakdown'', JArr s1),
                     (''yearRange'', JObj [(''earliest'', earliest), (''latest'', latest)])])
              200 cache_long))))))),
          snd a2))"

text \<open>Lines 466 to 472.\<close>

definition health :: "'s env \<Rightarrow> (response, 's) step" where
  "health e =
     bnd (first e (''SELECT 1'', [])) (\<lambda>r.
       ret (createResponse
         (JObj [(''status'', JStr ''healthy''), (''timestamp'', JStr (now e))]) 200 []))"

section \<open>The dispatcher (lines 171 to 517)\<close>

text \<open>
  The pattern \<^verbatim>\<open>/api/books/:id([0-9]+)\<close>: the group \<^verbatim>\<open>id\<close> when the path matches.
\<close>

definition single_book_id :: "string \<Rightarrow> string option" where
  "single_book_id p =
     (let pre = ''/api/books/''; seg = drop (length pre) p in
      if take (length pre) p = pre \<and> seg \<noteq> [] \<and> list_all is_digit seg then Some seg else None)"

text \<open>Lines 206 to 474: the routes, tried in the order of the source.\<close>

definition route :: "'s env \<Rightarrow> request \<Rightarrow> (response, 's) step" where
  "route e req =
     (if pathname req = ''/api/books/search'' then search_books e req
      else if pathname req = ''/api/books'' then
        (if req_method req = ''GET'' then list_books e req
         else if req_method req = ''POST'' then create_book e req
         else ret (createResponse (error_body ''Method not allowed'') 405 []))
      else
        (case single_book_id (pathname req) of
           Some seg \<Rightarrow> single_book e req seg
         | None \<Rightarrow>
             if pathname req = ''/api/stats'' then stats e
             else if pathname req = ''/api/health'' then health e
             else ret (createResponse (error_body ''Not Found'') 404 [])))"

text \<open>Lines 199 to 204 and the routes: the \<^verbatim>\<open>try\<close> block.\<close>

definition try_block :: "'s env \<Rightarrow> request \<Rightarrow> (response, 's) step" where
  "try_block e req =
     bnd (checkRateLimit e req) (\<lambda>u.
     bnd (lift (validateContentType req)) (\<lambda>u.
       route e req))"

text \<open>Lines 486 to 506: the status and the message of the response to an exception.\<close>

definition error_response :: "error \<Rightarrow> response" where
  "error_response err =
     (let st = 500;
          message = ''An unexpected error occurred'';
          sm = (case err of
                  ValidationError m \<Rightarrow> (400, m)
                | NotFoundError m \<Rightarrow> (404, m)
                | RateLimitError m \<Rightarrow> (429, m)
                | Error m \<Rightarrow>
                    if str_includes m ''timeout'' then (504, ''Request timeout'')
                    else if str_includes m ''JSON'' then (400, ''Invalid JSON in request body'')
                    else (st, message))
      in createResponse (error_body (snd sm)) (fst sm) [])"

text \<open>Lines 475 to 506: the \<^verbatim>\<open>catch\<close> block logs the exception and answers.\<close>

definition catch_block :: "error \<Rightarrow> 's world \<Rightarrow> response \<times> 's world" where
  "catch_block err w = (error_response err, emit (ConsoleError ''Request error:'' err) w)"

text \<open>Lines 191 to 194: the test on the declared size of the body.\<close>

definition too_large :: "request \<Rightarrow> bool" where
  "too_large req =
     (let contentLength = lookup (req_headers req) ''content-length'' in
      truthy contentLength
      \<and> (case parseInt contentLength of None \<Rightarrow> False | Some n \<Rightarrow> n > 1048576))"

text \<open>
  Lines 172 to 516. The result is the response with the world the request leaves: the
  state of the store and the events in their order.
\<close>

definition fetch :: "'s env \<Rightarrow> request \<Rightarrow> 's \<Rightarrow> response \<times> 's world" where
  "fetch e req s =
     (let w0 = emit (ConsoleLog ''Request started:'') \<lparr> db = s, trace = [] \<rparr> in
      if req_method req = ''OPTIONS'' then (createResponse JNull 204 [], w0)
      else
        if too_large req
        then (createResponse (error_body ''Request body too large (max 1MB)'') 413 [], w0)
        else
          (case try_block e req w0 of
             (Inr resp, w1) \<Rightarrow> (resp, emit (ConsoleLog ''Request completed:'') w1)
           | (Inl err, w1) \<Rightarrow>
               (case catch_block err w1 of
                  (resp, w2) \<Rightarrow> (resp, emit (ConsoleLog ''Request completed:'') w2))))"

text \<open>The events that reach the store.\<close>

fun is_store_event :: "event \<Rightarrow> bool" where
  "is_store_event (DbAll st) = True"
| "is_store_event (DbRun st) = True"
| "is_store_event (DbFirst st) = True"
| "is_store_event ev = False"

section \<open>Collaborators and requests of the examples\<close>

text \<open>
  A store that answers every \<^verbatim>\<open>all()\<close> in time with the rows \<open>rows\<close>, the count
  statement with \<open>c\<close>, and every \<^verbatim>\<open>run()\<close> with success; its state is trivial.
\<close>

definition example_store :: "jsval list \<Rightarrow> int \<Rightarrow> unit d1" where
  "example_store rows c =
     \<lparr> d1_all = (\<lambda>st s. ((InTime, Inr rows), s)),
       d1_all_count = (\<lambda>st s. ((InTime, Inr c), s)),
       d1_run = (\<lambda>st s. (Inr (True, JNum 1), s)),
       d1_first = (\<lambda>st s. (Inr JNull, s)) \<rparr>"

definition example_env :: "(string \<Rightarrow> limiter_outcome) option \<Rightarrow> jsval list \<Rightarrow> int \<Rightarrow> unit env" where
  "example_env limiter rows c =
     \<lparr> MY_RATE_LIMITER = limiter,
       DB = example_store rows c,
       currentYear = 2026,
       now = ''2026-01-01T00:00:00.000Z'' \<rparr>"

definition example_request :: "string \<Rightarrow> string \<Rightarrow> (string \<times> string) list \<Rightarrow> (string \<times> string) list \<Rightarrow> jsval \<Rightarrow> request" where
  "example_request m p q h b =
     \<lparr> req_method = m, pathname = p, searchParams = q, req_headers = h, json = Inr b \<rparr>"

definition stored_book :: jsval where
  "stored_book =
     JObj [(''id'', JNum 7), (''title'', JStr ''Dune''), (''author'', JStr ''Frank Herbert''),
           (''year'', JNum 1965), (''isbn'', JStr ''9780441172719''),
           (''genre'', JStr ''Science Fiction''), (''description'', JNull)]"

text \<open>A candidate record with a title, an author and the ISBN \<open>s\<close>.\<close>

definition isbn_record :: "string \<Rightarrow> jsval" where
  "isbn_record s =
     JObj [(''title'', JStr ''1984''), (''author'', JStr ''George Orwell''), (''isbn'', JStr s)]"


section \<open>Numbers in decimal notation are read back by \<^verbatim>\<open>parseInt\<close>\<close>

lemmas parse_defs = parseInt_def parse_int_string_def is_ws_def radix_digit_def digit_val_def
  digits_value_def

lemma digit_char_code: "d < 10 \<Longrightarrow> (of_char (digit_char d) :: nat) = 48 + d"
proof -
  assume "d < 10"
  then have "d \<in> {0, 1, 2, 3, 4, 5, 6, 7, 8, 9}" by auto
  then show ?thesis by (auto simp: digit_char_def)
qed

lemma digit_val_digit_char: "d < 10 \<Longrightarrow> digit_val (digit_char d) = Some d"
  by (simp add: digit_val_def digit_char_code)

lemma is_digit_digit_char: "d < 10 \<Longrightarrow> is_digit (digit_char d)"
  by (simp add: is_digit_def digit_char_code)

lemma not_ws_digit: "is_digit c \<Longrightarrow> \<not> is_ws c"
  by (auto simp: is_digit_def is_ws_def)

lemma radix_digit_10: "radix_digit 10 c = is_digit c"
  by (auto simp: radix_digit_def digit_val_def is_digit_def Let_def)

lemma show_nat_digits: "list_all is_digit (show_nat n)"
proof (induction n rule: show_nat.induct)
  case (1 n)
  show ?case
  proof (cases "n < 10")
    case True
    then show ?thesis by (subst show_nat.simps) (simp add: is_digit_digit_char)
  next
    case False
    with 1 show ?thesis by (subst show_nat.simps) (simp add: is_digit_digit_char)
  qed
qed

lemma show_nat_nonempty: "show_nat n \<noteq> []"
  by (subst show_nat.simps) simp

lemma digits_value_snoc:
  "digits_value r (ds @ [c]) = digits_value r ds * r + (case digit_val c of None \<Rightarrow> 0 | Some d \<Rightarrow> d)"
  by (simp add: digits_value_def)

lemma digits_value_show_nat: "digits_value 10 (show_nat n) = n"
proof (induction n rule: show_nat.induct)
  case (1 n)
  show ?case
  proof (cases "n < 10")
    case True
    then show ?thesis
      by (subst show_nat.simps) (simp add: digits_value_def digit_val_digit_char)
  next
    case False
    with 1 have "digits_value 10 (show_nat (n div 10)) = n div 10" by simp
    with False show ?thesis
      by (subst show_nat.simps) (simp add: digits_value_snoc digit_val_digit_char)
  qed
qed

lemma parse_int_digits:
  assumes "ds \<noteq> []" "list_all is_digit ds"
  shows "parse_int_string ds = Some (int (digits_value 10 ds))"
proof -
  obtain c r where ds: "ds = c # r" using assms(1) by (cases ds) auto
  have c: "is_digit c" using assms(2) ds by simp
  have nws: "dropWhile is_ws ds = ds" using c ds by (simp add: not_ws_digit)
  have nsign: "c \<noteq> CHR ''-''" "c \<noteq> CHR ''+''" using c by (auto simp: is_digit_def)
  have nhex: "\<not> (case ds of c # x # r \<Rightarrow> c = CHR ''0'' \<and> (x = CHR ''x'' \<or> x = CHR ''X'') | _ \<Rightarrow> False)"
    using assms(2) ds by (auto simp: is_digit_def split: list.splits)
  have tw: "takeWhile (radix_digit 10) ds = ds"
    using assms(2) by (simp add: radix_digit_10 list_all_iff)
  show ?thesis
    unfolding parse_int_string_def Let_def nws
    using nsign nhex tw assms(1) by (simp add: ds)
qed

lemma parseInt_show_nat: "parseInt (JStr (show_nat n)) = Some (int n)"
  by (simp add: parseInt_def parse_int_digits show_nat_nonempty show_nat_digits digits_value_show_nat)

section \<open>The size check comes first\<close>

lemma too_large_parsed:
  assumes "map_of (req_headers req) ''content-length'' = Some v" and "parseInt (JStr v) = Some n"
  shows "too_large req = (n > 1048576)"
proof -
  have "v \<noteq> []" using assms(2) by (auto simp: parse_defs)
  then show ?thesis using assms by (simp add: too_large_def lookup_def)
qed

text \<open>
  C7. A request that is not \<^verbatim>\<open>OPTIONS\<close> and whose \<^verbatim>\<open>content-length\<close> header is read by
  \<^verbatim>\<open>parseInt\<close> as a number above 1048576, as the decimal notation of such a number is, is
  answered with status 413 whatever the limiter, the store, the content type and the body
  are: the store keeps its state, and the only event is the log of the start of the
  request, so the limiter is not called, the body is not read and no statement reaches
  the store.
\<close>

theorem oversized_request_rejected_first:
  assumes "req_method req \<noteq> ''OPTIONS''"
    and "map_of (req_headers req) ''content-length'' = Some v"
    and "parseInt (JStr v) = Some n"
    and "n > 1048576"
  shows "fetch e req s =
           (createResponse (error_body ''Request body too large (max 1MB)'') 413 [],
            \<lparr> db = s, trace = [ConsoleLog ''Request started:''] \<rparr>)
         \<and> status (fst (fetch e req s)) = 413
         \<and> db (snd (fetch e req s)) = s
         \<and> (\<forall>ev \<in> set (trace (snd (fetch e req s))).
               \<not> is_store_event ev \<and> ev \<noteq> BodyRead \<and> (\<forall>k. ev \<noteq> LimiterCall k))
         \<and> (\<forall>k. parseInt (JStr (show_nat k)) = Some (int k))"
proof -
  have tl: "too_large req" using assms(2,3,4) by (simp add: too_large_parsed)
  have f: "fetch e req s =
           (createResponse (error_body ''Request body too large (max 1MB)'') 413 [],
            \<lparr> db = s, trace = [ConsoleLog ''Request started:''] \<rparr>)"
    using assms(1) tl by (simp add: fetch_def emit_def)
  show ?thesis by (simp add: f createResponse_def parseInt_show_nat)
qed

theorem oversized_request_rejected_first_witness:
  "fetch (example_env (Some (\<lambda>k. Limited False)) [] 0)
         (example_request ''POST'' ''/api/books'' [] [(''content-length'', ''2000000'')] JNull) ()
   = (createResponse (error_body ''Request body too large (max 1MB)'') 413 [],
      \<lparr> db = (), trace = [ConsoleLog ''Request started:''] \<rparr>)"
  using oversized_request_rejected_first
    [of "example_request ''POST'' ''/api/books'' [] [(''content-length'', ''2000000'')] JNull"
        "''2000000''" 2000000 "example_env (Some (\<lambda>k. Limited False)) [] 0" "()"]
  by (simp add: example_request_def parse_defs)

section \<open>The rate limit gate\<close>

lemma checkRateLimit_db: "db (snd (checkRateLimit e req w)) = db w"
  by (simp add: checkRateLimit_def emit_def Let_def
           split: option.splits limiter_outcome.splits sum.splits error.splits)

lemma checkRateLimit_trace:
  "\<exists>evs. trace (snd (checkRateLimit e req w)) = trace w @ evs
         \<and> (\<forall>ev \<in> set evs. \<not> is_store_event ev \<and> ev \<noteq> BodyRead)"
  by (auto simp: checkRateLimit_def emit_def Let_def
           split: option.splits limiter_outcome.splits sum.splits error.splits)

lemma fetch_denied:
  assumes "req_method req \<noteq> ''OPTIONS''" "\<not> too_large req"
    and "MY_RATE_LIMITER e = Some limiter" "limiter (client_ip req) = Limited False"
  shows "fetch e req s =
     (createResponse (error_body ''Rate limit exceeded. Please try again later.'') 429 [],
      \<lparr> db = s,
        trace = [ConsoleLog ''Request started:'', LimiterCall (client_ip req),
                 ConsoleError ''Request error:'' (RateLimitError ''Rate limit exceeded. Please try again later.''),
                 ConsoleLog ''Request completed:''] \<rparr>)"
  using assms
  by (simp add: fetch_def try_block_def bnd_def checkRateLimit_def emit_def Let_def
        catch_block_def error_response_def)

text \<open>
  C8. Without a limiter the gate passes and leaves the world as it is. With a limiter
  that answers \<^verbatim>\<open>success = false\<close> for the client's address the gate throws
  \<^verbatim>\<open>RateLimitError\<close>, whose status is 429, and the dispatcher answers 429 with that
  message without reading the body or reaching the store. With a limiter that throws, the
  gate logs the exception and passes.
\<close>

theorem rate_limit_gate:
  "(MY_RATE_LIMITER e = None \<longrightarrow> checkRateLimit e req w = (Inr (), w))
   \<and> (\<forall>limiter. MY_RATE_LIMITER e = Some limiter \<and> limiter (client_ip req) = Limited False \<longrightarrow>
         checkRateLimit e req w =
           (Inl (RateLimitError ''Rate limit exceeded. Please try again later.''),
            emit (LimiterCall (client_ip req)) w)
         \<and> error_status (RateLimitError ''Rate limit exceeded. Please try again later.'') = Some 429
         \<and> (req_method req \<noteq> ''OPTIONS'' \<and> \<not> too_large req \<longrightarrow>
              (\<forall>s. status (fst (fetch e req s)) = 429
                 \<and> body (fst (fetch e req s))
                     = Some (error_body ''Rate limit exceeded. Please try again later.'')
                 \<and> (\<forall>ev \<in> set (trace (snd (fetch e req s))). \<not> is_store_event ev \<and> ev \<noteq> BodyRead))))
   \<and> (\<forall>limiter m. MY_RATE_LIMITER e = Some limiter \<and> limiter (client_ip req) = LimiterThrows m \<longrightarrow>
         checkRateLimit e req w =
           (Inr (), emit (ConsoleError ''Rate limiter error:'' (Error m))
                      (emit (LimiterCall (client_ip req)) w)))"
proof (intro conjI allI impI)
  assume "MY_RATE_LIMITER e = None"
  then show "checkRateLimit e req w = (Inr (), w)" by (simp add: checkRateLimit_def)
next
  fix limiter
  assume a: "MY_RATE_LIMITER e = Some limiter \<and> limiter (client_ip req) = Limited False"
  then show "checkRateLimit e req w =
           (Inl (RateLimitError ''Rate limit exceeded. Please try again later.''),
            emit (LimiterCall (client_ip req)) w)"
    by (simp add: checkRateLimit_def Let_def)
  show "error_status (RateLimitError ''Rate limit exceeded. Please try again later.'') = Some 429"
    by simp
  fix s
  assume b: "req_method req \<noteq> ''OPTIONS'' \<and> \<not> too_large req"
  note f = fetch_denied [of req e limiter s]
  from a b show "status (fst (fetch e req s)) = 429" by (simp add: f createResponse_def)
  from a b show "body (fst (fetch e req s)) = Some (error_body ''Rate limit exceeded. Please try again later.'')"
    by (simp add: f createResponse_def error_body_def)
  from a b show "\<forall>ev \<in> set (trace (snd (fetch e req s))). \<not> is_store_event ev \<and> ev \<noteq> BodyRead"
    by (simp add: f)
next
  fix limiter m
  assume "MY_RATE_LIMITER e = Some limiter \<and> limiter (client_ip req) = LimiterThrows m"
  then show "checkRateLimit e req w =
           (Inr (), emit (ConsoleError ''Rate limiter error:'' (Error m))
                      (emit (LimiterCall (client_ip req)) w))"
    by (simp add: checkRateLimit_def Let_def)
qed

theorem rate_limit_gate_witness:
  "checkRateLimit (example_env None [] 0) (example_request ''GET'' ''/api/books'' [] [] JNull)
       \<lparr> db = (), trace = [] \<rparr> = (Inr (), \<lparr> db = (), trace = [] \<rparr>)
   \<and> status (fst (fetch (example_env (Some (\<lambda>k. Limited False)) [] 0)
         (example_request ''GET'' ''/api/books'' [] [(''cf-connecting-ip'', ''203.0.113.9'')] JNull) ())) = 429
   \<and> checkRateLimit (example_env (Some (\<lambda>k. LimiterThrows ''limiter unreachable'')) [] 0)
         (example_request ''GET'' ''/api/books'' [] [(''cf-connecting-ip'', ''203.0.113.9'')] JNull)
         \<lparr> db = (), trace = [] \<rparr>
       = (Inr (), \<lparr> db = (), trace = [LimiterCall ''203.0.113.9'',
             ConsoleError ''Rate limiter error:'' (Error ''limiter unreachable'')] \<rparr>)"
  using rate_limit_gate
      [of "example_env None [] 0" "example_request ''GET'' ''/api/books'' [] [] JNull"
          "\<lparr> db = (), trace = [] \<rparr>"]
    rate_limit_gate
      [of "example_env (Some (\<lambda>k. Limited False)) [] 0"
          "example_request ''GET'' ''/api/books'' [] [(''cf-connecting-ip'', ''203.0.113.9'')] JNull"
          "\<lparr> db = (), trace = [] \<rparr>"]
    rate_limit_gate
      [of "example_env (Some (\<lambda>k. LimiterThrows ''limiter unreachable'')) [] 0"
          "example_request ''GET'' ''/api/books'' [] [(''cf-connecting-ip'', ''203.0.113.9'')] JNull"
          "\<lparr> db = (), trace = [] \<rparr>"]
  by (simp add: example_env_def example_request_def client_ip_def lookup_def emit_def
        too_large_def)

section \<open>Exceptions and responses\<close>

lemma fetch_caught:
  assumes "req_method req \<noteq> ''OPTIONS''" "\<not> too_large req"
    and "try_block e req (emit (ConsoleLog ''Request started:'') \<lparr> db = s, trace = [] \<rparr>) = (Inl err, w1)"
  shows "fetch e req s =
     (error_response err,
      emit (ConsoleLog ''Request completed:'') (emit (ConsoleError ''Request error:'' err) w1))"
  using assms by (simp add: fetch_def catch_block_def Let_def)




section \<open>The single-record route\<close>

lemma single_book_id_Some:
  "single_book_id p = Some seg \<Longrightarrow> p = ''/api/books/'' @ seg \<and> seg \<noteq> [] \<and> list_all is_digit seg"
proof -
  let ?k = "length ''/api/books/''"
  assume a: "single_book_id p = Some seg"
  then have t: "take ?k p = ''/api/books/''" and d: "drop ?k p = seg" and n: "seg \<noteq> []"
    and g: "list_all is_digit seg"
    unfolding single_book_id_def Let_def by (auto split: if_splits)
  have "p = take ?k p @ drop ?k p" by (simp only: append_take_drop_id)
  with t d n g show ?thesis by simp
qed

lemma route_single:
  assumes "single_book_id (pathname req) = Some seg"
  shows "route e req = single_book e req seg"
proof -
  from single_book_id_Some [OF assms]
  obtain c r where p: "pathname req = ''/api/books/'' @ c # r" and c: "is_digit c"
    by (cases seg) auto
  have "pathname req \<noteq> ''/api/books/search''" using p c by (auto simp: is_digit_def)
  moreover have "pathname req \<noteq> ''/api/books''" using p by auto
  ultimately show ?thesis using assms by (simp add: route_def)
qed

lemma try_block_passed:
  assumes "fst (checkRateLimit e req w) = Inr ()" "validateContentType req = Inr ()"
  shows "try_block e req w = route e req (snd (checkRateLimit e req w))"
  using assms by (cases "checkRateLimit e req w") (simp add: try_block_def bnd_def lift_def)

text \<open>
  C10. A request that reaches the routes (it is not \<^verbatim>\<open>OPTIONS\<close>, its declared size is
  accepted, the rate limit gate and the content type check pass) and matches the
  single-record route with an identifier that \<^verbatim>\<open>parseInt\<close> reads as a number that is not
  positive is answered 400 with \<^verbatim>\<open>Invalid book ID\<close>: the store keeps its state, no statement
  reaches it and the body is not read.
\<close>

theorem invalid_book_id:
  assumes "req_method req \<noteq> ''OPTIONS''" and "\<not> too_large req"
    and "fst (checkRateLimit e req (emit (ConsoleLog ''Request started:'') \<lparr> db = s, trace = [] \<rparr>)) = Inr ()"
    and "validateContentType req = Inr ()"
    and "single_book_id (pathname req) = Some seg"
    and "parseInt (JStr seg) = Some n" and "n \<le> 0"
  shows "fst (fetch e req s) = createResponse (error_body ''Invalid book ID'') 400 []
       \<and> status (fst (fetch e req s)) = 400
       \<and> db (snd (fetch e req s)) = s
       \<and> (\<forall>ev \<in> set (trace (snd (fetch e req s))). \<not> is_store_event ev \<and> ev \<noteq> BodyRead)"
proof -
  let ?w0 = "emit (ConsoleLog ''Request started:'') \<lparr> db = s, trace = [] \<rparr>"
  let ?w1 = "snd (checkRateLimit e req ?w0)"
  have sb: "single_book e req seg ?w1 = (Inl (ValidationError ''Invalid book ID''), ?w1)"
    using assms(6,7) by (simp add: single_book_def safeParseInt_def throw_def)
  have tb: "try_block e req ?w0 = (Inl (ValidationError ''Invalid book ID''), ?w1)"
    using assms(3,4,5) sb by (simp add: try_block_passed route_single)
  have f: "fetch e req s =
      (error_response (ValidationError ''Invalid book ID''),
       emit (ConsoleLog ''Request completed:'')
         (emit (ConsoleError ''Request error:'' (ValidationError ''Invalid book ID'')) ?w1))"
    using assms(1,2) tb by (rule fetch_caught)
  obtain evs where evs: "trace ?w1 = trace ?w0 @ evs"
      "\<forall>ev \<in> set evs. \<not> is_store_event ev \<and> ev \<noteq> BodyRead"
    using checkRateLimit_trace [of e req ?w0] by blast
  have d: "db ?w1 = s" by (simp add: checkRateLimit_db emit_def)
  show ?thesis
    using evs d by (auto simp: f error_response_def emit_def createResponse_def)
qed

theorem invalid_book_id_witness:
  "fst (fetch (example_env None [stored_book] 1) (example_request ''GET'' ''/api/books/0'' [] [] JNull) ())
     = createResponse (error_body ''Invalid book ID'') 400 []"
  using invalid_book_id
    [of "example_request ''GET'' ''/api/books/0'' [] [] JNull" "example_env None [stored_book] 1" "()"
        "''0''" 0]
  by (simp add: example_request_def example_env_def too_large_def lookup_def checkRateLimit_def
        validateContentType_def single_book_id_def is_digit_def parse_defs)

text \<open>
  C6 as stated fails on the identifier \<^verbatim>\<open>0\<close>: it matches the single-record route and
  resolves to no record, since the store assigns positive identifiers, and a \<^verbatim>\<open>GET\<close> on
  it is answered 400, not 404.
\<close>

theorem nonexistent_id_zero_counterexample:
  "status (fst (fetch (example_env None [] 0) (example_request ''GET'' ''/api/books/0'' [] [] JNull) ())) = 400
   \<and> status (fst (fetch (example_env None [] 0) (example_request ''GET'' ''/api/books/0'' [] [] JNull) ())) \<noteq> 404"
  by (simp add: fetch_def too_large_def lookup_def example_request_def example_env_def
        try_block_def bnd_def checkRateLimit_def lift_def validateContentType_def route_def
        single_book_id_def is_digit_def single_book_def safeParseInt_def parse_defs throw_def
        catch_block_def error_response_def createResponse_def emit_def)

text \<open>
  C6, amended. A request that reaches the routes (it is not \<^verbatim>\<open>OPTIONS\<close>, its declared
  size is accepted, the rate limit gate and the content type check pass) and matches the
  single-record route with an identifier that \<^verbatim>\<open>parseInt\<close> reads as a positive number
  for which the store has no row is answered 404 with \<^verbatim>\<open>Book not found\<close>, whatever its
  method is: the lookup is the only statement that reaches the store, and the body is not
  read.
\<close>

theorem missing_book_not_found:
  assumes "req_method req \<noteq> ''OPTIONS''" and "\<not> too_large req"
    and "fst (checkRateLimit e req (emit (ConsoleLog ''Request started:'') \<lparr> db = s, trace = [] \<rparr>)) = Inr ()"
    and "validateContentType req = Inr ()"
    and "single_book_id (pathname req) = Some seg"
    and "parseInt (JStr seg) = Some n" and "n > 0"
    and "d1_all (DB e) (select_by_id, [JNum n]) s = ((InTime, Inr []), s')"
  shows "fst (fetch e req s) = createResponse (error_body ''Book not found'') 404 []
       \<and> status (fst (fetch e req s)) = 404
       \<and> db (snd (fetch e req s)) = s'
       \<and> filter is_store_event (trace (snd (fetch e req s))) = [DbAll (select_by_id, [JNum n])]
       \<and> BodyRead \<notin> set (trace (snd (fetch e req s)))"
proof -
  let ?w0 = "emit (ConsoleLog ''Request started:'') \<lparr> db = s, trace = [] \<rparr>"
  let ?w1 = "snd (checkRateLimit e req ?w0)"
  let ?w2 = "emit (DbAll (select_by_id, [JNum n])) (?w1\<lparr>db := s'\<rparr>)"
  have d: "db ?w1 = s" by (simp add: checkRateLimit_db emit_def)
  have sb: "single_book e req seg ?w1 = (Inl (NotFoundError ''Book not found''), ?w2)"
    using assms(6,7,8) d
    by (simp add: single_book_def safeParseInt_def throw_def bnd_def executeQuery_def
          first_row_def Let_def)
  have tb: "try_block e req ?w0 = (Inl (NotFoundError ''Book not found''), ?w2)"
    using assms(3,4,5) sb by (simp add: try_block_passed route_single)
  have f: "fetch e req s =
      (error_response (NotFoundError ''Book not found''),
       emit (ConsoleLog ''Request completed:'')
         (emit (ConsoleError ''Request error:'' (NotFoundError ''Book not found'')) ?w2))"
    using assms(1,2) tb by (rule fetch_caught)
  obtain evs where evs: "trace ?w1 = trace ?w0 @ evs"
      "\<forall>ev \<in> set evs. \<not> is_store_event ev \<and> ev \<noteq> BodyRead"
    using checkRateLimit_trace [of e req ?w0] by blast
  have fl: "filter is_store_event evs = []" using evs(2) by (simp add: filter_empty_conv)
  show ?thesis
    using evs fl by (auto simp: f error_response_def emit_def createResponse_def)
qed

theorem missing_book_not_found_witness:
  "fst (fetch (example_env None [] 0) (example_request ''DELETE'' ''/api/books/12'' [] [] JNull) ())
     = createResponse (error_body ''Book not found'') 404 []
   \<and> fst (fetch (example_env None [] 0)
        (example_request ''PUT'' ''/api/books/12'' [] [(''content-type'', ''application/json'')]
           (JObj [(''genre'', JStr ''Classic'')])) ())
     = createResponse (error_body ''Book not found'') 404 []
   \<and> fst (fetch (example_env None [] 0) (example_request ''GET'' ''/api/books/12'' [] [] JNull) ())
     = createResponse (error_body ''Book not found'') 404 []"
  using missing_book_not_found
    [of "example_request ''DELETE'' ''/api/books/12'' [] [] JNull" "example_env None [] 0" "()"
        "''12''" 12 "()"]
   missing_book_not_found
    [of "example_request ''PUT'' ''/api/books/12'' [] [(''content-type'', ''application/json'')]
           (JObj [(''genre'', JStr ''Classic'')])" "example_env None [] 0" "()"
        "''12''" 12 "()"]
   missing_book_not_found
    [of "example_request ''GET'' ''/api/books/12'' [] [] JNull" "example_env None [] 0" "()"
        "''12''" 12 "()"]
  by (simp add: example_request_def example_env_def example_store_def too_large_def lookup_def
        checkRateLimit_def validateContentType_def single_book_id_def is_digit_def parse_defs)

section \<open>Validation of the ISBN\<close>

lemma first_error_Inr: "first_error cs = Inr () \<longleftrightarrow> (\<forall>c \<in> set cs. c = Inr ())"
  by (induction cs rule: first_error.induct) auto

lemma first_error_Inl: "first_error cs = Inl x \<Longrightarrow> Inl x \<in> set cs"
  by (induction cs rule: first_error.induct) auto

lemma check_name_error: "check_name v k a b = Inl x \<Longrightarrow> \<exists>m. x = ValidationError m"
  by (auto simp: check_name_def split: jsval.splits if_splits)

lemma check_text_error: "check_text v k a b = Inl x \<Longrightarrow> \<exists>m. x = ValidationError m"
  by (auto simp: check_text_def split: jsval.splits if_splits)

lemma check_year_error: "check_year cy book = Inl x \<Longrightarrow> \<exists>m. x = ValidationError m"
  by (auto simp: check_year_def Let_def split: option.splits if_splits)

lemma check_isbn_error: "check_isbn book = Inl x \<Longrightarrow> \<exists>m. x = ValidationError m"
  by (auto simp: check_isbn_def Let_def split: jsval.splits if_splits)

lemma check_required_error:
  "check_required book u = Inl x \<Longrightarrow> book \<noteq> JNull \<Longrightarrow> book \<noteq> JUndefined \<Longrightarrow> \<exists>m. x = ValidationError m"
  by (auto simp: check_required_def Let_def split: if_splits)

lemma validateBook_error:
  assumes "validateBook cy book u = Inl x" "book \<noteq> JNull" "book \<noteq> JUndefined"
  shows "\<exists>m. x = ValidationError m"
proof -
  from first_error_Inl [OF assms(1) [unfolded validateBook_def]]
  show ?thesis
    using assms(2,3)
    by (auto simp: check_title_def check_author_def check_description_def check_genre_def
          dest: check_required_error [OF sym] check_name_error [OF sym] check_text_error [OF sym]
            check_year_error [OF sym] check_isbn_error [OF sym])
qed

lemma check_isbn_string:
  "get_prop book ''isbn'' = JStr s \<Longrightarrow> s \<noteq> [] \<Longrightarrow>
     check_isbn book = (if isbn_format s then Inr () else Inl (ValidationError ''Invalid ISBN format''))"
  by (simp add: check_isbn_def)

lemma isbn_record_checks:
  "check_required (isbn_record s) False = Inr ()" "check_title (isbn_record s) = Inr ()"
  "check_author (isbn_record s) = Inr ()" "check_year cy (isbn_record s) = Inr ()"
  "check_description (isbn_record s) = Inr ()" "check_genre (isbn_record s) = Inr ()"
  "get_prop (isbn_record s) ''isbn'' = JStr s"
  by (simp_all add: isbn_record_def check_required_def check_title_def check_author_def
        check_year_def check_description_def check_genre_def check_name_def check_text_def
        trim_def is_ws_def)

lemma validate_isbn_record:
  "s \<noteq> [] \<Longrightarrow> validateBook cy (isbn_record s) False =
     (if isbn_format s then Inr () else Inl (ValidationError ''Invalid ISBN format''))"
  by (simp add: validateBook_def isbn_record_checks check_isbn_string)

lemma validateBook_isbn_iff:
  assumes "get_prop book ''isbn'' = JStr s" and "s \<noteq> []"
  shows "validateBook cy book isUpdate = Inr () \<longleftrightarrow>
           isbn_format s
           \<and> check_required book isUpdate = Inr () \<and> check_title book = Inr ()
           \<and> check_author book = Inr () \<and> check_year cy book = Inr ()
           \<and> check_description book = Inr () \<and> check_genre book = Inr ()"
  by (auto simp: validateBook_def first_error_Inr check_isbn_string [OF assms])

lemma validateBook_isbn_fails:
  assumes "get_prop book ''isbn'' = JStr s" and "s \<noteq> []" and "\<not> isbn_format s"
  shows "\<exists>m. validateBook cy book isUpdate = Inl (ValidationError m)"
proof -
  have nn: "book \<noteq> JNull" "book \<noteq> JUndefined" using assms(1) by auto
  have "validateBook cy book isUpdate \<noteq> Inr ()"
    using assms(3) by (simp add: validateBook_isbn_iff [OF assms(1,2)])
  then obtain x where x: "validateBook cy book isUpdate = Inl x"
    by (cases "validateBook cy book isUpdate") auto
  with validateBook_error [OF x nn] show ?thesis by auto
qed

lemma twenty_digits_rejected:
  assumes "length t = 20"
  shows "validateBook cy (isbn_record t) False = Inl (ValidationError ''Invalid ISBN format'')"
proof -
  have "t \<noteq> []" using assms by auto
  moreover have "\<not> isbn_format t" using assms by (simp add: isbn_format_def)
  ultimately show ?thesis by (simp add: validate_isbn_record)
qed

text \<open>
  C4. For a candidate record whose \<^verbatim>\<open>isbn\<close> is a non-empty string \<open>s\<close>, the ISBN check
  passes exactly when \<open>s\<close> is ten digits, thirteen digits, or thirteen to seventeen
  digits and hyphens, and throws \<^verbatim>\<open>ValidationError\<close> otherwise; the validation of the
  record passes exactly when \<open>s\<close> has that form and the checks of the other fields pass,
  and fails with a \<^verbatim>\<open>ValidationError\<close> when \<open>s\<close> has not. For a record with a title and
  an author, \<^verbatim>\<open>0451524935\<close> and \<^verbatim>\<open>9780451524935\<close> pass, \<^verbatim>\<open>abc\<close> and every string of
  twenty digits fail. An \<^verbatim>\<open>isbn\<close> that is truthy and not a string fails as well, with
  \<^verbatim>\<open>ISBN must be a string\<close>.
\<close>

theorem isbn_validation:
  assumes "get_prop book ''isbn'' = JStr s" and "s \<noteq> []"
  shows "check_isbn book = (if isbn_format s then Inr () else Inl (ValidationError ''Invalid ISBN format''))
    \<and> (validateBook cy book isUpdate = Inr () \<longleftrightarrow>
           isbn_format s
           \<and> check_required book isUpdate = Inr () \<and> check_title book = Inr ()
           \<and> check_author book = Inr () \<and> check_year cy book = Inr ()
           \<and> check_description book = Inr () \<and> check_genre book = Inr ())
    \<and> (\<not> isbn_format s \<longrightarrow> (\<exists>m. validateBook cy book isUpdate = Inl (ValidationError m)))
    \<and> (isbn_format s \<longleftrightarrow>
           (length s = 10 \<and> list_all is_digit s) \<or> (length s = 13 \<and> list_all is_digit s)
           \<or> (13 \<le> length s \<and> length s \<le> 17 \<and> list_all (\<lambda>c. is_digit c \<or> c = CHR ''-'') s))
    \<and> validateBook cy (isbn_record ''0451524935'') False = Inr ()
    \<and> validateBook cy (isbn_record ''9780451524935'') False = Inr ()
    \<and> validateBook cy (isbn_record ''abc'') False = Inl (ValidationError ''Invalid ISBN format'')
    \<and> (\<forall>t. length t = 20 \<and> list_all is_digit t \<longrightarrow>
           validateBook cy (isbn_record t) False = Inl (ValidationError ''Invalid ISBN format''))
    \<and> (\<forall>other v. get_prop other ''isbn'' = v \<and> truthy v \<and> \<not> is_string v \<longrightarrow>
           check_isbn other = Inl (ValidationError ''ISBN must be a string''))"
proof (intro conjI)
  show "\<forall>other v. get_prop other ''isbn'' = v \<and> truthy v \<and> \<not> is_string v \<longrightarrow>
           check_isbn other = Inl (ValidationError ''ISBN must be a string'')"
    by (auto simp: check_isbn_def split: jsval.splits)
  show "check_isbn book = (if isbn_format s then Inr () else Inl (ValidationError ''Invalid ISBN format''))"
    using assms by (rule check_isbn_string)
  show "validateBook cy book isUpdate = Inr () \<longleftrightarrow>
           isbn_format s
           \<and> check_required book isUpdate = Inr () \<and> check_title book = Inr ()
           \<and> check_author book = Inr () \<and> check_year cy book = Inr ()
           \<and> check_description book = Inr () \<and> check_genre book = Inr ()"
    using assms by (rule validateBook_isbn_iff)
  show "\<not> isbn_format s \<longrightarrow> (\<exists>m. validateBook cy book isUpdate = Inl (ValidationError m))"
    using assms by (blast intro: validateBook_isbn_fails)
  show "isbn_format s \<longleftrightarrow>
           (length s = 10 \<and> list_all is_digit s) \<or> (length s = 13 \<and> list_all is_digit s)
           \<or> (13 \<le> length s \<and> length s \<le> 17 \<and> list_all (\<lambda>c. is_digit c \<or> c = CHR ''-'') s)"
    by (simp add: isbn_format_def)
  show "validateBook cy (isbn_record ''0451524935'') False = Inr ()"
    by (simp add: validate_isbn_record isbn_format_def is_digit_def)
  show "validateBook cy (isbn_record ''9780451524935'') False = Inr ()"
    by (simp add: validate_isbn_record isbn_format_def is_digit_def)
  show "validateBook cy (isbn_record ''abc'') False = Inl (ValidationError ''Invalid ISBN format'')"
    by (simp add: validate_isbn_record isbn_format_def is_digit_def)
  show "\<forall>t. length t = 20 \<and> list_all is_digit t \<longrightarrow>
           validateBook cy (isbn_record t) False = Inl (ValidationError ''Invalid ISBN format'')"
    by (simp add: twenty_digits_rejected)
qed

theorem isbn_validation_witness:
  "validateBook 2026 stored_book True = Inr ()
   \<and> check_isbn (JObj [(''isbn'', JStr ''978-0-452-28423-4'')]) = Inr ()
   \<and> (\<exists>m. validateBook 2026 (JObj [(''title'', JStr ''1984''), (''isbn'', JStr ''12345678901234567890'')]) True
          = Inl (ValidationError m))
   \<and> check_isbn (JObj [(''isbn'', JNum 451524935)]) = Inl (ValidationError ''ISBN must be a string'')"
  using isbn_validation [of stored_book "''9780441172719''" 2026 True]
    isbn_validation [of "JObj [(''isbn'', JStr ''978-0-452-28423-4'')]" "''978-0-452-28423-4''" 2026 True]
    isbn_validation [of "JObj [(''title'', JStr ''1984''), (''isbn'', JStr ''12345678901234567890'')]"
       "''12345678901234567890''" 2026 True]
  by (simp add: stored_book_def isbn_format_def is_digit_def check_required_def check_title_def
        check_author_def check_year_def check_description_def check_genre_def check_name_def
        check_text_def trim_def is_ws_def parse_defs show_int_def show_nat.simps digit_char_def)

section \<open>The update statement\<close>






lemma update_statement_object:
  "update_statement cy bookId book (JObj kvs) =
     (let updateFields = filter allowed (map fst kvs) in
      if updateFields = [] then Inl (ValidationError ''No valid fields to update'')
      else and_then (validateBook cy (JObj (spread (own_props book) kvs)) True) (\<lambda>u.
        Inr (''UPDATE books SET '' @ join '', '' (map (\<lambda>key. key @ '' = ?'') updateFields) @ '' WHERE id = ?'',
             map (\<lambda>key. bind_value (get_prop (JObj kvs) key)) updateFields @ [JNum bookId])))"
  by (simp add: update_statement_def object_keys_def and_then_def Let_def)


lemma count_join_placeholders:
  "\<forall>k \<in> set ks. allowed k \<Longrightarrow>
     count_list (join '', '' (map (\<lambda>key. key @ '' = ?'') ks)) (CHR ''?'') = length ks"
proof (induction ks rule: induct_list012)
  case 1
  show ?case by simp
next
  case (2 x)
  then show ?case by (auto simp: allowed_def ALLOWED_UPDATE_FIELDS_def)
next
  case (3 x y zs)
  then have "allowed x" by simp
  then have "count_list (x @ '' = ?'') (CHR ''?'') = 1"
    by (auto simp: allowed_def ALLOWED_UPDATE_FIELDS_def)
  with 3 show ?case by simp
qed

lemma update_statement_Inr:
  assumes "update_statement cy bookId book updates = Inr (sql, vals)"
  shows "\<exists>keys. object_keys updates = Inr keys \<and> filter allowed keys \<noteq> []
           \<and> validateBook cy (JObj (spread (own_props book) (own_props updates))) True = Inr ()
           \<and> sql = ''UPDATE books SET '' @ join '', '' (map (\<lambda>key. key @ '' = ?'') (filter allowed keys))
                      @ '' WHERE id = ?''
           \<and> vals = map (\<lambda>key. bind_value (get_prop updates key)) (filter allowed keys) @ [JNum bookId]"
  using assms
  by (auto simp: update_statement_def and_then_def Let_def split: sum.splits if_splits)

lemma bind_value_cases:
  "(\<forall>s. v = JStr s \<and> trim s \<noteq> [] \<longrightarrow> bind_value v = JStr (trim s))
   \<and> (v = JStr [] \<longrightarrow> bind_value v = JNull)
   \<and> (\<not> is_string v \<longrightarrow> bind_value v = v)"
  by (auto simp: bind_value_def trim_def split: jsval.splits)


text \<open>
  C2, amended. In the statement of an update, the value bound for an allowed key is the
  trimmed text when the value of the key is a text with a character that is not white
  space, \<^verbatim>\<open>null\<close> when it is the empty string, and the value itself when it is not a
  text. The identifier of the row is the last bound value, the text ends with the
  \<^verbatim>\<open>WHERE\<close> clause, and there are as many placeholders as bound values.
\<close>

theorem update_bound_values:
  "\<forall>sql vals. update_statement cy bookId book updates = Inr (sql, vals) \<longrightarrow>
     (\<exists>keys pre. object_keys updates = Inr keys
        \<and> length vals = length (filter allowed keys) + 1
        \<and> last vals = JNum bookId
        \<and> sql = pre @ '' WHERE id = ?''
        \<and> count_list sql (CHR ''?'') = length vals
        \<and> (\<forall>i < length (filter allowed keys).
             (\<forall>s. get_prop updates (filter allowed keys ! i) = JStr s \<and> trim s \<noteq> [] \<longrightarrow>
                  vals ! i = JStr (trim s))
           \<and> (get_prop updates (filter allowed keys ! i) = JStr [] \<longrightarrow> vals ! i = JNull)
           \<and> (\<not> is_string (get_prop updates (filter allowed keys ! i)) \<longrightarrow>
                  vals ! i = get_prop updates (filter allowed keys ! i))))"
proof (intro allI impI)
  fix sql vals
  assume "update_statement cy bookId book updates = Inr (sql, vals)"
  from update_statement_Inr [OF this]
  obtain keys where k: "object_keys updates = Inr keys"
    and t: "sql = ''UPDATE books SET '' @ join '', '' (map (\<lambda>key. key @ '' = ?'') (filter allowed keys))
                      @ '' WHERE id = ?''"
    and v: "vals = map (\<lambda>key. bind_value (get_prop updates key)) (filter allowed keys) @ [JNum bookId]"
    by blast
  let ?fs = "filter allowed keys"
  have c: "count_list sql (CHR ''?'') = length vals"
    by (simp add: t v count_join_placeholders)
  have n: "\<forall>i < length ?fs. vals ! i = bind_value (get_prop updates (?fs ! i))"
    by (simp add: v nth_append)
  show "\<exists>keys pre. object_keys updates = Inr keys
        \<and> length vals = length (filter allowed keys) + 1
        \<and> last vals = JNum bookId
        \<and> sql = pre @ '' WHERE id = ?''
        \<and> count_list sql (CHR ''?'') = length vals
        \<and> (\<forall>i < length (filter allowed keys).
             (\<forall>s. get_prop updates (filter allowed keys ! i) = JStr s \<and> trim s \<noteq> [] \<longrightarrow>
                  vals ! i = JStr (trim s))
           \<and> (get_prop updates (filter allowed keys ! i) = JStr [] \<longrightarrow> vals ! i = JNull)
           \<and> (\<not> is_string (get_prop updates (filter allowed keys ! i)) \<longrightarrow>
                  vals ! i = get_prop updates (filter allowed keys ! i)))"
  proof (intro exI conjI)
    show "object_keys updates = Inr keys" by (rule k)
    show "length vals = length ?fs + 1" by (simp add: v)
    show "last vals = JNum bookId" by (simp add: v)
    show "sql = (''UPDATE books SET '' @ join '', '' (map (\<lambda>key. key @ '' = ?'') ?fs)) @ '' WHERE id = ?''"
      by (simp add: t)
    show "count_list sql (CHR ''?'') = length vals" by (rule c)
    show "\<forall>i < length ?fs.
             (\<forall>s. get_prop updates (?fs ! i) = JStr s \<and> trim s \<noteq> [] \<longrightarrow> vals ! i = JStr (trim s))
           \<and> (get_prop updates (?fs ! i) = JStr [] \<longrightarrow> vals ! i = JNull)
           \<and> (\<not> is_string (get_prop updates (?fs ! i)) \<longrightarrow> vals ! i = get_prop updates (?fs ! i))"
      using n bind_value_cases by simp
  qed
qed

lemmas validate_defs = validateBook_def check_required_def check_title_def check_author_def
  check_year_def check_isbn_def check_description_def check_genre_def check_name_def
  check_text_def trim_def is_ws_def isbn_format_def is_digit_def

lemmas update_eval = update_statement_object allowed_def ALLOWED_UPDATE_FIELDS_def spread_def
  stored_book_def and_then_def bind_value_def

text \<open>
  C2 as stated fails on a text of white space: an update of the stored record that sets
  \<^verbatim>\<open>genre\<close> to three spaces passes validation and binds the three spaces, a non-empty
  text that is not trimmed before it is bound.
\<close>

theorem whitespace_update_counterexample:
  "update_statement 2026 7 stored_book (JObj [(''genre'', JStr ''   '')])
     = Inr (''UPDATE books SET genre = ? WHERE id = ?'', [JStr ''   '', JNum 7])
   \<and> trim ''   '' \<noteq> ''   ''
   \<and> trace (snd (fetch (example_env None [stored_book] 1)
         (example_request ''PUT'' ''/api/books/7'' [] [(''content-type'', ''application/json'')]
            (JObj [(''genre'', JStr ''   '')])) ()))
     = [ConsoleLog ''Request started:'',
        DbAll (select_by_id, [JNum 7]),
        BodyRead,
        DbRun (''UPDATE books SET genre = ? WHERE id = ?'', [JStr ''   '', JNum 7]),
        DbAll (select_by_id, [JNum 7]),
        ConsoleLog ''Book updated:'',
        ConsoleLog ''Request completed:'']"
proof -
  have u: "update_statement 2026 7 stored_book (JObj [(''genre'', JStr ''   '')])
     = Inr (''UPDATE books SET genre = ? WHERE id = ?'', [JStr ''   '', JNum 7])"
    by (simp add: update_eval validate_defs parse_defs show_int_def show_nat.simps digit_char_def)
  have t: "truthy stored_book" by (simp add: stored_book_def)
  show ?thesis
    by (simp add: u t fetch_def too_large_def lookup_def example_request_def example_env_def
        example_store_def try_block_def bnd_def checkRateLimit_def lift_def validateContentType_def
        route_def single_book_id_def is_digit_def single_book_def safeParseInt_def parse_defs
        executeQuery_def first_row_def update_book_def read_json_def run_def console_log_def
        ret_def emit_def trim_def)
qed


text \<open>
  The keys of an array and of a text are indices, and a number and a boolean have none:
  such a body has no allowed key.
\<close>

lemma show_nat_not_allowed: "\<not> allowed (show_nat n)"
proof
  assume a: "allowed (show_nat n)"
  have d: "list_all is_digit (show_nat n)" by (rule show_nat_digits)
  from a d show False
    by (auto simp: allowed_def ALLOWED_UPDATE_FIELDS_def is_digit_def)
qed

lemma index_keys_not_allowed: "filter allowed (map show_nat ns) = []"
  by (simp add: filter_empty_conv show_nat_not_allowed)

lemma update_statement_not_object:
  assumes "updates \<noteq> JNull" "updates \<noteq> JUndefined" "\<forall>kvs. updates \<noteq> JObj kvs"
  shows "update_statement cy bookId book updates = Inl (ValidationError ''No valid fields to update'')"
proof -
  have "\<exists>ns. map fst (own_props updates) = map show_nat ns"
    using assms(3) by (cases updates) (auto intro: exI [of _ "[]"])
  then obtain ns where "map fst (own_props updates) = map show_nat ns" by blast
  then show ?thesis
    using assms(1,2)
    by (simp add: update_statement_def object_keys_def and_then_def index_keys_not_allowed)
qed

text \<open>
  The body \<^verbatim>\<open>null\<close> is not a payload with keys: \<^verbatim>\<open>Object.keys\<close> throws a TypeError on
  it, which the dispatcher answers 500.
\<close>

lemma update_statement_null:
  "update_statement cy bookId book JNull = Inl (Error ''Cannot convert undefined or null to object'')
   \<and> status (error_response (Error ''Cannot convert undefined or null to object'')) = 500"
  by (simp add: update_statement_def object_keys_def and_then_def error_response_def
        createResponse_def Let_def)

theorem update_bound_values_witness:
  "update_statement 2026 7 stored_book
      (JObj [(''title'', JStr ''  Dune Messiah ''), (''description'', JStr []), (''year'', JNum 1969)])
     = Inr (''UPDATE books SET title = ?, description = ?, year = ? WHERE id = ?'',
            [JStr ''Dune Messiah'', JNull, JNum 1969, JNum 7])"
  using update_bound_values [of 2026 7 stored_book
      "JObj [(''title'', JStr ''  Dune Messiah ''), (''description'', JStr []), (''year'', JNum 1969)]"]
  by (simp add: update_eval validate_defs parse_defs show_int_def show_nat.simps digit_char_def)

section \<open>The list operation\<close>

















section \<open>The insert statement\<close>

lemma check_text_ok:
  "check_text v k a b = Inr () \<Longrightarrow> v = JNull \<or> v = JUndefined \<or> (\<exists>s. v = JStr s)"
  by (auto simp: check_text_def split: jsval.splits if_splits)

lemma check_name_ok:
  "check_name v k a b = Inr () \<Longrightarrow> v = JUndefined \<or> (\<exists>s. v = JStr s)"
  by (auto simp: check_name_def split: jsval.splits if_splits)

lemma trim_or_null_text:
  "v = JNull \<or> v = JUndefined \<or> (\<exists>s. v = JStr s) \<Longrightarrow>
     trim_or_null v = Inr (case v of JStr s \<Rightarrow> if s = [] then JNull else JStr (trim s) | _ \<Rightarrow> JNull)"
  by (auto simp: trim_or_null_def call_trim_def)

text \<open>
  For a record that validation accepts, the insert statement is built, and binds the
  trimmed title and author, the year and the ISBN when they are truthy and \<^verbatim>\<open>null\<close> when
  they are not, and the trimmed genre and description when they are truthy and \<^verbatim>\<open>null\<close>
  when they are not.
\<close>

lemma insert_statement_valid:
  assumes "validateBook cy book False = Inr ()"
  shows "\<exists>t a. get_prop book ''title'' = JStr t \<and> get_prop book ''author'' = JStr a
           \<and> insert_statement cy book =
               Inr (insert_text,
                    [JStr (trim t), JStr (trim a),
                     or_null (get_prop book ''year''), or_null (get_prop book ''isbn''),
                     (case get_prop book ''genre'' of
                        JStr s \<Rightarrow> if s = [] then JNull else JStr (trim s) | _ \<Rightarrow> JNull),
                     (case get_prop book ''description'' of
                        JStr s \<Rightarrow> if s = [] then JNull else JStr (trim s) | _ \<Rightarrow> JNull)])"
proof -
  from assms have ok: "check_required book False = Inr ()" "check_title book = Inr ()"
      "check_author book = Inr ()" "check_description book = Inr ()" "check_genre book = Inr ()"
    by (simp_all add: validateBook_def first_error_Inr)
  from ok(1) have tr: "truthy (get_prop book ''title'')" "truthy (get_prop book ''author'')"
    by (auto simp: check_required_def Let_def split: if_splits)
  from ok(2) tr(1) obtain t where t: "get_prop book ''title'' = JStr t"
    by (auto simp: check_title_def dest: check_name_ok)
  from ok(3) tr(2) obtain a where a: "get_prop book ''author'' = JStr a"
    by (auto simp: check_author_def dest: check_name_ok)
  from ok(5) have g: "trim_or_null (get_prop book ''genre'')
      = Inr (case get_prop book ''genre'' of JStr s \<Rightarrow> if s = [] then JNull else JStr (trim s) | _ \<Rightarrow> JNull)"
    by (intro trim_or_null_text) (auto simp: check_genre_def dest: check_text_ok)
  from ok(4) have d: "trim_or_null (get_prop book ''description'')
      = Inr (case get_prop book ''description'' of JStr s \<Rightarrow> if s = [] then JNull else JStr (trim s) | _ \<Rightarrow> JNull)"
    by (intro trim_or_null_text) (auto simp: check_description_def dest: check_text_ok)
  show ?thesis
    using assms t a g d
    by (simp add: insert_statement_def insert_values_def and_then_def call_trim_def Let_def)
qed

lemmas insert_eval = insert_statement_def insert_values_def insert_text_def and_then_def
  call_trim_def trim_or_null_def or_null_def

lemma insert_zero_statements:
  "validateBook 2026
      (JObj [(''title'', JStr ''Dune''), (''author'', JStr ''Frank Herbert''), (''year'', JNum 0)]) False
     = Inr ()
   \<and> insert_statement 2026
      (JObj [(''title'', JStr ''Dune''), (''author'', JStr ''Frank Herbert''), (''year'', JNum 0)])
     = Inr (insert_text, [JStr ''Dune'', JStr ''Frank Herbert'', JNull, JNull, JNull, JNull])
   \<and> insert_statement 2026
      (JObj [(''title'', JStr ''Dune''), (''author'', JStr ''Frank Herbert''), (''genre'', JStr ''   '')])
     = Inr (insert_text, [JStr ''Dune'', JStr ''Frank Herbert'', JNull, JNull, JStr [], JNull])
   \<and> update_statement 2026 7 stored_book (JObj [(''year'', JNum 0)])
     = Inr (''UPDATE books SET year = ? WHERE id = ?'', [JNum 0, JNum 7])"
  by (simp add: insert_eval update_eval validate_defs parse_defs show_int_def show_nat.simps
        digit_char_def)

lemma insert_year_zero_fetch:
  "snd (fetch (example_env None [stored_book] 1)
         (example_request ''POST'' ''/api/books'' [] [(''content-type'', ''application/json'')]
            (JObj [(''title'', JStr ''Dune''), (''author'', JStr ''Frank Herbert''), (''year'', JNum 0)])) ())
     = \<lparr> db = (),
         trace = [ConsoleLog ''Request started:'', BodyRead,
                  DbRun (insert_text, [JStr ''Dune'', JStr ''Frank Herbert'', JNull, JNull, JNull, JNull]),
                  DbAll (select_by_id, [JNum 1]),
                  ConsoleLog ''Book created:'', ConsoleLog ''Request completed:''] \<rparr>"
  by (simp add: fetch_def too_large_def lookup_def example_request_def example_env_def
        example_store_def try_block_def bnd_def checkRateLimit_def lift_def validateContentType_def
        route_def create_book_def read_json_def run_def executeQuery_def console_log_def ret_def
        emit_def first_row_def
        insert_eval validate_defs parse_defs show_int_def show_nat.simps digit_char_def)

text \<open>
  C3. A creation with the year 0, which validation accepts, binds \<^verbatim>\<open>null\<close> for the year,
  and that is the statement the dispatcher sends to the store; a creation with a genre of
  three spaces binds the empty string for the genre; the update of the same year binds 0.
\<close>

theorem insert_year_zero_bound_null:
  "validateBook 2026
      (JObj [(''title'', JStr ''Dune''), (''author'', JStr ''Frank Herbert''), (''year'', JNum 0)]) False
     = Inr ()
   \<and> insert_statement 2026
      (JObj [(''title'', JStr ''Dune''), (''author'', JStr ''Frank Herbert''), (''year'', JNum 0)])
     = Inr (insert_text, [JStr ''Dune'', JStr ''Frank Herbert'', JNull, JNull, JNull, JNull])
   \<and> snd (fetch (example_env None [stored_book] 1)
         (example_request ''POST'' ''/api/books'' [] [(''content-type'', ''application/json'')]
            (JObj [(''title'', JStr ''Dune''), (''author'', JStr ''Frank Herbert''), (''year'', JNum 0)])) ())
     = \<lparr> db = (),
         trace = [ConsoleLog ''Request started:'', BodyRead,
                  DbRun (insert_text, [JStr ''Dune'', JStr ''Frank Herbert'', JNull, JNull, JNull, JNull]),
                  DbAll (select_by_id, [JNum 1]),
                  ConsoleLog ''Book created:'', ConsoleLog ''Request completed:''] \<rparr>
   \<and> insert_statement 2026
      (JObj [(''title'', JStr ''Dune''), (''author'', JStr ''Frank Herbert''), (''genre'', JStr ''   '')])
     = Inr (insert_text, [JStr ''Dune'', JStr ''Frank Herbert'', JNull, JNull, JStr [], JNull])
   \<and> update_statement 2026 7 stored_book (JObj [(''year'', JNum 0)])
     = Inr (''UPDATE books SET year = ? WHERE id = ?'', [JNum 0, JNum 7])"
  using insert_zero_statements insert_year_zero_fetch by blast

end
